theory Spec2Isabelle
  imports Main
begin

section \<open>Python values\<close>

text \<open>
  A Python \<open>str\<close> is a sequence of Unicode code points, so it is modelled as a list of
  natural numbers. ASCII literals of the source are written \<open>py ''...''\<close>.
\<close>

type_synonym pystr = "nat list"

abbreviation py :: "string \<Rightarrow> pystr" where
  "py s \<equiv> map of_char s"

text \<open>
  An exception is its class together with the text \<open>str(e)\<close> renders. \<open>BaseExc\<close> is the
  class \<open>Exception\<close> itself, which is what every \<open>raise Exception(error_msg)\<close> of the
  source creates; \<open>OtherExc name\<close> stands for the classes of the libraries
  (paramiko, socket, OSError and so on).
\<close>

datatype exc_class = BaseExc | ValueError | FileNotFoundErr | FileExistsErr | OtherExc string

datatype pyexc = PyExc (exc_class: exc_class) (exc_str: pystr)

text \<open>Truthiness of an optional string and of an optional integer, and Python's \<open>or\<close>.\<close>

definition truthy_str :: "pystr option \<Rightarrow> bool" where
  "truthy_str x = (case x of None \<Rightarrow> False | Some s \<Rightarrow> s \<noteq> [])"

definition truthy_int :: "int option \<Rightarrow> bool" where
  "truthy_int x = (case x of None \<Rightarrow> False | Some n \<Rightarrow> n \<noteq> 0)"

definition or_str :: "pystr option \<Rightarrow> pystr \<Rightarrow> pystr" where
  "or_str x d = (case x of None \<Rightarrow> d | Some s \<Rightarrow> if s \<noteq> [] then s else d)"

definition or_int :: "int option \<Rightarrow> int \<Rightarrow> int" where
  "or_int x d = (case x of None \<Rightarrow> d | Some n \<Rightarrow> if n \<noteq> 0 then n else d)"

definition or_opt :: "pystr option \<Rightarrow> pystr option \<Rightarrow> pystr option" where
  "or_opt x d = (if truthy_str x then x else d)"

text \<open>\<open>str(n)\<close> of an integer: decimal digits, with a minus sign when negative.\<close>

fun digits :: "nat \<Rightarrow> pystr" where
  "digits n = (if n < 10 then [48 + n] else digits (n div 10) @ [48 + n mod 10])"

declare digits.simps [simp del]

definition str_int :: "int \<Rightarrow> pystr" where
  "str_int i = (if i < 0 then 45 # digits (nat (- i)) else digits (nat i))"

text \<open>Reading a decimal numeral back.\<close>

definition digits_value :: "pystr \<Rightarrow> nat" where
  "digits_value ds = foldl (\<lambda>a d. 10 * a + (d - 48)) 0 ds"

section \<open>Data model\<close>

record SSHConfig =
  host :: pystr
  port :: int
  username :: pystr
  password :: "pystr option"
  private_key :: "pystr option"
  private_key_passphrase :: "pystr option"

text \<open>The six optional parameters of \<open>_connect_ssh\<close>.\<close>

record connect_args =
  arg_host :: "pystr option"
  arg_port :: "int option"
  arg_username :: "pystr option"
  arg_password :: "pystr option"
  arg_private_key :: "pystr option"
  arg_private_key_passphrase :: "pystr option"

datatype key_type = RSA | Ed25519 | ECDSA | DSS

type_synonym handle = nat
type_synonym pkey = nat

datatype auth = ByKey pkey | ByPassword "pystr option"

text \<open>
  Every call the server makes on a library object is recorded, in order, as an event.
  An object is named by the position of the event that created it.
\<close>

datatype event =
    NewClient handle
  | ParseKey key_type
  | Connect handle pystr int pystr auth
  | OpenSftp handle handle
  | CloseSsh handle
  | CloseSftp handle
  | Exec handle pystr
  | Mkdir handle pystr
  | Put handle pystr pystr
  | Get handle pystr pystr
  | MakeDirs pystr

text \<open>What \<open>exec_command\<close> hands back: the two streams and the exit status, each of
  which may still fail when it is read.\<close>

record exec_reply =
  stdout_read :: "pyexc + nat list"
  stderr_read :: "pyexc + nat list"
  exit_status :: "pyexc + int"

text \<open>
  The world outside the server: the process environment, the local file system, the
  interpreter's \<open>int\<close> and UTF-8 decoder, the key parsers, and the remote side.
  \<open>raises E tr = Some e\<close> says that the call recorded last in \<open>tr\<close> raises \<open>e\<close>.
  \<open>key_classes E = Some e\<close> says that naming the four key classes of the library raises
  \<open>e\<close>, as it does when the installed library no longer has one of them.
  Every theorem below holds for every such world.
\<close>

record env =
  getenv :: "pystr \<Rightarrow> pystr option"
  int_of_str :: "pystr \<Rightarrow> pyexc + int"
  path_exists :: "pystr \<Rightarrow> bool"
  read_file :: "pystr \<Rightarrow> pyexc + pystr"
  from_private_key :: "key_type \<Rightarrow> pystr \<Rightarrow> pystr option \<Rightarrow> pyexc + pkey"
  key_classes :: "pyexc option"
  raises :: "event list \<Rightarrow> pyexc option"
  exec_result :: "event list \<Rightarrow> exec_reply"
  decode_replace :: "nat list \<Rightarrow> pystr"

text \<open>The fields of \<open>SSHMCPServer\<close>, with the record of the calls made so far.\<close>

record server =
  ssh_client :: "handle option"
  sftp_client :: "handle option"
  config :: "SSHConfig option"
  trace :: "event list"

definition init_server :: server where
  "init_server = \<lparr>ssh_client = None, sftp_client = None, config = None, trace = []\<rparr>"

section \<open>Reading the default configuration\<close>

definition getenv_default :: "env \<Rightarrow> pystr \<Rightarrow> pystr \<Rightarrow> pystr" where
  "getenv_default E k d = (case getenv E k of None \<Rightarrow> d | Some v \<Rightarrow> v)"

definition get_env_ssh_config :: "env \<Rightarrow> pyexc + SSHConfig" where
  "get_env_ssh_config E =
    (case int_of_str E (getenv_default E (py ''UBUNTU_SSH_PORT'') (py ''22'')) of
       Inl e \<Rightarrow> Inl e
     | Inr p \<Rightarrow>
        (let config = \<lparr>host = getenv_default E (py ''UBUNTU_SSH_HOST'') [],
                       port = p,
                       username = getenv_default E (py ''UBUNTU_SSH_USERNAME'') [],
                       password = getenv E (py ''UBUNTU_SSH_PASSWORD''),
                       private_key = None,
                       private_key_passphrase =
                         getenv E (py ''UBUNTU_SSH_PRIVATE_KEY_PASSPHRASE'')\<rparr>
         in case getenv E (py ''UBUNTU_SSH_PRIVATE_KEY_PATH'') of
              None \<Rightarrow> Inr config
            | Some private_key_path \<Rightarrow>
                if private_key_path \<noteq> [] \<and> path_exists E private_key_path then
                  (case read_file E private_key_path of
                     Inl e \<Rightarrow> Inr config
                   | Inr text \<Rightarrow> Inr (config\<lparr>private_key := Some text\<rparr>))
                else Inr config))"

section \<open>Disconnect\<close>

text \<open>The body of the \<open>try\<close> of \<open>_disconnect_ssh\<close>: a close that raises leaves the
  assignments after it undone.\<close>

definition close_sftp_step :: "env \<Rightarrow> server \<Rightarrow> pyexc option \<times> server" where
  "close_sftp_step E s =
    (case sftp_client s of
       None \<Rightarrow> (None, s)
     | Some h \<Rightarrow>
        (let s1 = s\<lparr>trace := trace s @ [CloseSftp h]\<rparr>
         in case raises E (trace s1) of
              Some e \<Rightarrow> (Some e, s1)
            | None \<Rightarrow> (None, s1\<lparr>sftp_client := None\<rparr>)))"

definition close_ssh_step :: "env \<Rightarrow> server \<Rightarrow> pyexc option \<times> server" where
  "close_ssh_step E s =
    (case ssh_client s of
       None \<Rightarrow> (None, s)
     | Some h \<Rightarrow>
        (let s1 = s\<lparr>trace := trace s @ [CloseSsh h]\<rparr>
         in case raises E (trace s1) of
              Some e \<Rightarrow> (Some e, s1)
            | None \<Rightarrow> (None, s1\<lparr>ssh_client := None\<rparr>)))"

definition disconnect_body :: "env \<Rightarrow> server \<Rightarrow> (pyexc + pystr) \<times> server" where
  "disconnect_body E s =
    (case close_sftp_step E s of
       (Some e, s1) \<Rightarrow> (Inl e, s1)
     | (None, s1) \<Rightarrow>
        (case close_ssh_step E s1 of
           (Some e, s2) \<Rightarrow> (Inl e, s2)
         | (None, s2) \<Rightarrow>
             (Inr (py ''Successfully disconnected from SSH''), s2\<lparr>config := None\<rparr>)))"

definition disconnect_ssh :: "env \<Rightarrow> server \<Rightarrow> (pyexc + pystr) \<times> server" where
  "disconnect_ssh E s =
    (case disconnect_body E s of
       (Inl e, s1) \<Rightarrow> (Inl (PyExc BaseExc (py ''Disconnect failed: '' @ exc_str e)), s1)
     | (Inr msg, s1) \<Rightarrow> (Inr msg, s1))"

section \<open>Connect\<close>

definition merge_config :: "connect_args \<Rightarrow> SSHConfig \<Rightarrow> SSHConfig" where
  "merge_config a env_config =
    \<lparr>host = or_str (arg_host a) (host env_config),
     port = or_int (arg_port a) (port env_config),
     username = or_str (arg_username a) (username env_config),
     password = or_opt (arg_password a) (password env_config),
     private_key = or_opt (arg_private_key a) (private_key env_config),
     private_key_passphrase =
       or_opt (arg_private_key_passphrase a) (private_key_passphrase env_config)\<rparr>"

definition validate_config :: "SSHConfig \<Rightarrow> pyexc option" where
  "validate_config c =
    (if host c = [] then
       Some (PyExc ValueError (py ''Host is required. Provide it as parameter or set UBUNTU_SSH_HOST environment variable.''))
     else if username c = [] then
       Some (PyExc ValueError (py ''Username is required. Provide it as parameter or set UBUNTU_SSH_USERNAME environment variable.''))
     else if \<not> truthy_str (password c) \<and> \<not> truthy_str (private_key c) then
       Some (PyExc ValueError (py ''Either password or private key is required. Set UBUNTU_SSH_PASSWORD or UBUNTU_SSH_PRIVATE_KEY_PATH environment variable.''))
     else None)"

definition key_types :: "key_type list" where
  "key_types = [RSA, Ed25519, ECDSA, DSS]"

text \<open>The loop over \<open>key_types\<close>: the first class that parses ends it.\<close>

fun load_key :: "env \<Rightarrow> pystr \<Rightarrow> pystr option \<Rightarrow> key_type list \<Rightarrow> event list
    \<Rightarrow> pkey option \<times> event list" where
  "load_key E text pw [] tr = (None, tr)"
| "load_key E text pw (k # ks) tr =
    (case from_private_key E k text pw of
       Inr obj \<Rightarrow> (Some obj, tr @ [ParseKey k])
     | Inl e \<Rightarrow> load_key E text pw ks (tr @ [ParseKey k]))"

definition do_connect :: "env \<Rightarrow> SSHConfig \<Rightarrow> handle \<Rightarrow> auth \<Rightarrow> server
    \<Rightarrow> pyexc option \<times> server" where
  "do_connect E c h au s =
    (let s1 = s\<lparr>trace := trace s @ [Connect h (host c) (port c) (username c) au]\<rparr>
     in (raises E (trace s1), s1))"

definition authenticate :: "env \<Rightarrow> SSHConfig \<Rightarrow> handle \<Rightarrow> server \<Rightarrow> pyexc option \<times> server" where
  "authenticate E c h s =
    (case private_key c of
       None \<Rightarrow> do_connect E c h (ByPassword (password c)) s
     | Some text \<Rightarrow>
        if text \<noteq> [] then
          (case key_classes E of
             Some e \<Rightarrow> (Some e, s)
           | None \<Rightarrow>
              (case load_key E text (private_key_passphrase c) key_types (trace s) of
                 (None, tr) \<Rightarrow>
                   (Some (PyExc ValueError (py ''Failed to load private key. Unsupported format or incorrect passphrase.'')),
                    s\<lparr>trace := tr\<rparr>)
               | (Some private_key_obj, tr) \<Rightarrow>
                   do_connect E c h (ByKey private_key_obj) (s\<lparr>trace := tr\<rparr>)))
        else do_connect E c h (ByPassword (password c)) s)"

definition success_msg :: "SSHConfig \<Rightarrow> pystr" where
  "success_msg c =
     py ''Successfully connected to '' @ username c @ py ''@'' @ host c @ py '':''
       @ str_int (port c)"

text \<open>From the creation of the client to the return of the success message.\<close>

definition establish :: "env \<Rightarrow> SSHConfig \<Rightarrow> server \<Rightarrow> (pyexc + pystr) \<times> server" where
  "establish E c s =
    (let h = length (trace s);
         s1 = s\<lparr>ssh_client := Some h, trace := trace s @ [NewClient h]\<rparr>
     in case authenticate E c h s1 of
          (Some e, s2) \<Rightarrow> (Inl e, s2)
        | (None, s2) \<Rightarrow>
           (let h2 = length (trace s2);
                s3 = s2\<lparr>trace := trace s2 @ [OpenSftp h h2]\<rparr>
            in case raises E (trace s3) of
                 Some e \<Rightarrow> (Inl e, s3)
               | None \<Rightarrow>
                   (Inr (success_msg c), s3\<lparr>sftp_client := Some h2, config := Some c\<rparr>)))"

definition connect_body :: "env \<Rightarrow> connect_args \<Rightarrow> server \<Rightarrow> (pyexc + pystr) \<times> server" where
  "connect_body E a s =
    (case (if ssh_client s \<noteq> None then disconnect_ssh E s else (Inr [], s)) of
       (Inl e, s1) \<Rightarrow> (Inl e, s1)
     | (Inr _, s1) \<Rightarrow>
        (case get_env_ssh_config E of
           Inl e \<Rightarrow> (Inl e, s1)
         | Inr env_config \<Rightarrow>
            (let final_config = merge_config a env_config
             in case validate_config final_config of
                  Some e \<Rightarrow> (Inl e, s1)
                | None \<Rightarrow> establish E final_config s1)))"

text \<open>The \<open>except\<close> branch: both closes are attempted with every error swallowed.\<close>

definition connect_cleanup :: "server \<Rightarrow> server" where
  "connect_cleanup s =
    (let s1 = (case ssh_client s of
                 None \<Rightarrow> s
               | Some h \<Rightarrow> s\<lparr>trace := trace s @ [CloseSsh h], ssh_client := None\<rparr>)
     in case sftp_client s1 of
          None \<Rightarrow> s1
        | Some h \<Rightarrow> s1\<lparr>trace := trace s1 @ [CloseSftp h], sftp_client := None\<rparr>)"

definition connect_ssh :: "env \<Rightarrow> connect_args \<Rightarrow> server \<Rightarrow> (pyexc + pystr) \<times> server" where
  "connect_ssh E a s =
    (case connect_body E a s of
       (Inl e, s1) \<Rightarrow>
         (Inl (PyExc BaseExc (py ''SSH connection failed: '' @ exc_str e)), connect_cleanup s1)
     | (Inr msg, s1) \<Rightarrow> (Inr msg, s1))"

section \<open>Running a command\<close>

text \<open>\<open>str.isspace\<close> on one code point, and the two strippers built on it.\<close>

definition is_space :: "nat \<Rightarrow> bool" where
  "is_space c \<longleftrightarrow>
     (9 \<le> c \<and> c \<le> 13) \<or> (28 \<le> c \<and> c \<le> 32) \<or> c = 133 \<or> c = 160 \<or> c = 5760
     \<or> (8192 \<le> c \<and> c \<le> 8202) \<or> c = 8232 \<or> c = 8233 \<or> c = 8239 \<or> c = 8287
     \<or> c = 12288"

definition rstrip :: "pystr \<Rightarrow> pystr" where
  "rstrip s = rev (dropWhile is_space (rev s))"

definition strip :: "pystr \<Rightarrow> pystr" where
  "strip s = dropWhile is_space (rstrip s)"

text \<open>\<open>"\n".join(parts)\<close>; the line feed is code point 10.\<close>

fun join_nl :: "pystr list \<Rightarrow> pystr" where
  "join_nl [] = []"
| "join_nl [x] = x"
| "join_nl (x # y # ys) = x @ [10] @ join_nl (y # ys)"

definition format_result :: "pystr \<Rightarrow> int \<Rightarrow> pystr \<Rightarrow> pystr \<Rightarrow> pystr" where
  "format_result command exit_code stdout_data stderr_data =
    join_nl
      [py ''Command: '' @ command,
       py ''Exit Code: '' @ str_int exit_code,
       [],
       py ''STDOUT:'',
       (if strip stdout_data \<noteq> [] then rstrip stdout_data else []),
       [],
       py ''STDERR:'',
       (if strip stderr_data \<noteq> [] then rstrip stderr_data else [])]"

definition actual_command :: "pystr \<Rightarrow> pystr option \<Rightarrow> pystr" where
  "actual_command command cwd =
    (case cwd of
       None \<Rightarrow> command
     | Some d \<Rightarrow> if d \<noteq> [] then py ''cd '' @ d @ py '' && '' @ command else command)"

definition execute_body :: "env \<Rightarrow> pystr \<Rightarrow> pystr option \<Rightarrow> handle \<Rightarrow> server
    \<Rightarrow> (pyexc + pystr) \<times> server" where
  "execute_body E command cwd h s =
    (let s1 = s\<lparr>trace := trace s @ [Exec h (actual_command command cwd)]\<rparr>
     in case raises E (trace s1) of
          Some e \<Rightarrow> (Inl e, s1)
        | None \<Rightarrow>
           (case stdout_read (exec_result E (trace s1)) of
              Inl e \<Rightarrow> (Inl e, s1)
            | Inr out \<Rightarrow>
               (case stderr_read (exec_result E (trace s1)) of
                  Inl e \<Rightarrow> (Inl e, s1)
                | Inr err \<Rightarrow>
                   (case exit_status (exec_result E (trace s1)) of
                      Inl e \<Rightarrow> (Inl e, s1)
                    | Inr exit_code \<Rightarrow>
                        (Inr (format_result command exit_code
                                (decode_replace E out) (decode_replace E err)), s1)))))"

definition execute_command :: "env \<Rightarrow> pystr \<Rightarrow> pystr option \<Rightarrow> server
    \<Rightarrow> (pyexc + pystr) \<times> server" where
  "execute_command E command cwd s =
    (case ssh_client s of
       None \<Rightarrow> (Inl (PyExc BaseExc (py ''Not connected to SSH. Please connect first.'')), s)
     | Some h \<Rightarrow>
        (case execute_body E command cwd h s of
           (Inl e, s1) \<Rightarrow>
             (Inl (PyExc BaseExc (py ''Command execution failed: '' @ exc_str e)), s1)
         | (Inr result, s1) \<Rightarrow> (Inr result, s1)))"

section \<open>Transferring a file\<close>

text \<open>The message of the guard of \<open>_upload_file\<close> and \<open>_download_file\<close>, which the
  source writes in Japanese, as code points.\<close>

definition not_connected_ja :: pystr where
  "not_connected_ja =
     [0x53, 0x53, 0x48, 0x306b, 0x63a5, 0x7d9a, 0x3055, 0x308c, 0x3066, 0x3044, 0x307e,
      0x305b, 0x3093, 0x3002, 0x307e, 0x305a, 0x63a5, 0x7d9a, 0x3057, 0x3066, 0x304f,
      0x3060, 0x3055, 0x3044, 0x3002]"

text \<open>\<open>os.path.dirname\<close> as \<open>posixpath\<close> defines it; the slash is code point 47.\<close>

definition dirname :: "pystr \<Rightarrow> pystr" where
  "dirname p =
    (let head = rev (dropWhile (\<lambda>c. c \<noteq> 47) (rev p))
     in if head \<noteq> [] \<and> head \<noteq> replicate (length head) 47
        then rev (dropWhile (\<lambda>c. c = 47) (rev head))
        else head)"

definition remote_mkdir :: "env \<Rightarrow> handle \<Rightarrow> pystr \<Rightarrow> server \<Rightarrow> pyexc option \<times> server" where
  "remote_mkdir E h remote_dir s =
    (if remote_dir \<noteq> [] then
       (let s1 = s\<lparr>trace := trace s @ [Mkdir h remote_dir]\<rparr>
        in case raises E (trace s1) of
             None \<Rightarrow> (None, s1)
           | Some e \<Rightarrow> if exc_class e = FileExistsErr then (None, s1) else (Some e, s1))
     else (None, s))"

definition upload_body :: "env \<Rightarrow> pystr \<Rightarrow> pystr \<Rightarrow> handle \<Rightarrow> server
    \<Rightarrow> (pyexc + pystr) \<times> server" where
  "upload_body E local_path remote_path h s =
    (if \<not> path_exists E local_path then
       (Inl (PyExc FileNotFoundErr (py ''Local file not found: '' @ local_path)), s)
     else
       (case remote_mkdir E h (dirname remote_path) s of
          (Some e, s1) \<Rightarrow> (Inl e, s1)
        | (None, s1) \<Rightarrow>
           (let s2 = s1\<lparr>trace := trace s1 @ [Put h local_path remote_path]\<rparr>
            in case raises E (trace s2) of
                 Some e \<Rightarrow> (Inl e, s2)
               | None \<Rightarrow>
                   (Inr (py ''Successfully uploaded '' @ local_path @ py '' to ''
                          @ remote_path), s2))))"

definition upload_file :: "env \<Rightarrow> pystr \<Rightarrow> pystr \<Rightarrow> server \<Rightarrow> (pyexc + pystr) \<times> server" where
  "upload_file E local_path remote_path s =
    (case sftp_client s of
       None \<Rightarrow> (Inl (PyExc BaseExc not_connected_ja), s)
     | Some h \<Rightarrow>
        (case upload_body E local_path remote_path h s of
           (Inl e, s1) \<Rightarrow> (Inl (PyExc BaseExc (py ''File upload failed: '' @ exc_str e)), s1)
         | (Inr msg, s1) \<Rightarrow> (Inr msg, s1)))"

definition download_body :: "env \<Rightarrow> pystr \<Rightarrow> pystr \<Rightarrow> handle \<Rightarrow> server
    \<Rightarrow> (pyexc + pystr) \<times> server" where
  "download_body E remote_path local_path h s =
    (let local_dir = dirname local_path
     in case (if local_dir \<noteq> [] \<and> \<not> path_exists E local_dir then
                (let s1 = s\<lparr>trace := trace s @ [MakeDirs local_dir]\<rparr>
                 in (raises E (trace s1), s1))
              else (None, s)) of
          (Some e, s1) \<Rightarrow> (Inl e, s1)
        | (None, s1) \<Rightarrow>
           (let s2 = s1\<lparr>trace := trace s1 @ [Get h remote_path local_path]\<rparr>
            in case raises E (trace s2) of
                 Some e \<Rightarrow> (Inl e, s2)
               | None \<Rightarrow>
                   (Inr (py ''Successfully downloaded '' @ remote_path @ py '' to ''
                          @ local_path), s2)))"

definition download_file :: "env \<Rightarrow> pystr \<Rightarrow> pystr \<Rightarrow> server \<Rightarrow> (pyexc + pystr) \<times> server" where
  "download_file E remote_path local_path s =
    (case sftp_client s of
       None \<Rightarrow> (Inl (PyExc BaseExc not_connected_ja), s)
     | Some h \<Rightarrow>
        (case download_body E remote_path local_path h s of
           (Inl e, s1) \<Rightarrow> (Inl (PyExc BaseExc (py ''File download failed: '' @ exc_str e)), s1)
         | (Inr msg, s1) \<Rightarrow> (Inr msg, s1)))"

section \<open>System information\<close>

definition commands :: "pystr list" where
  "commands = [py ''uname -a'', py ''lsb_release -a'', py ''df -h'', py ''free -h'',
               py ''ps aux | head -10'']"

text \<open>The loop of \<open>_get_system_info\<close>: a command that fails adds an error line and the
  loop goes on.\<close>

fun run_commands :: "env \<Rightarrow> handle \<Rightarrow> pystr list \<Rightarrow> pystr \<Rightarrow> server \<Rightarrow> pystr \<times> server" where
  "run_commands E h [] output s = (output, s)"
| "run_commands E h (command # rest) output s =
    (let s1 = s\<lparr>trace := trace s @ [Exec h command]\<rparr>;
         outcome = (case raises E (trace s1) of
                      Some e \<Rightarrow> Inl e
                    | None \<Rightarrow>
                       (case stdout_read (exec_result E (trace s1)) of
                          Inl e \<Rightarrow> Inl e
                        | Inr out \<Rightarrow> Inr (decode_replace E out)));
         section = (case outcome of
                      Inr stdout_data \<Rightarrow>
                        py ''=== '' @ command @ py '' ==='' @ [10] @ stdout_data @ [10, 10]
                    | Inl e \<Rightarrow>
                        py ''=== '' @ command @ py '' ==='' @ [10]
                          @ py ''Command execution error: '' @ exc_str e @ [10, 10])
     in run_commands E h rest (output @ section) s1)"

definition get_system_info :: "env \<Rightarrow> server \<Rightarrow> (pyexc + pystr) \<times> server" where
  "get_system_info E s =
    (case ssh_client s of
       None \<Rightarrow> (Inl (PyExc BaseExc (py ''Not connected to SSH. Please connect first.'')), s)
     | Some h \<Rightarrow>
        (case run_commands E h commands [] s of (output, s1) \<Rightarrow> (Inr output, s1)))"

section \<open>Sample worlds\<close>

text \<open>A world in which nothing fails: no variable is set, every command prints nothing
  and exits with status 1, and only the Ed25519 parser accepts a key.\<close>

definition quiet_env :: env where
  "quiet_env =
    \<lparr>getenv = (\<lambda>k. None),
     int_of_str = (\<lambda>t. Inr 22),
     path_exists = (\<lambda>p. False),
     read_file = (\<lambda>p. Inl (PyExc (OtherExc ''OSError'') [])),
     from_private_key = (\<lambda>k t p. if k = Ed25519 then Inr 7
                          else Inl (PyExc (OtherExc ''SSHException'') (py ''not a valid key file''))),
     key_classes = None,
     raises = (\<lambda>tr. None),
     exec_result = (\<lambda>tr. \<lparr>stdout_read = Inr [], stderr_read = Inr [], exit_status = Inr 1\<rparr>),
     decode_replace = (\<lambda>b. b)\<rparr>"

definition password_args :: connect_args where
  "password_args =
    \<lparr>arg_host = Some (py ''vm''), arg_port = None, arg_username = Some (py ''ubuntu''),
     arg_password = Some (py ''pw''), arg_private_key = None,
     arg_private_key_passphrase = None\<rparr>"

definition connected_server :: server where
  "connected_server = snd (connect_ssh quiet_env password_args init_server)"

text \<open>A remote side that prints \<open>hi\<close>, a byte that is not UTF-8 and a line feed, warns
  on the error stream and exits with status 1; the decoder replaces every byte above 127
  by U+FFFD.\<close>

definition noisy_env :: env where
  "noisy_env =
    quiet_env\<lparr>exec_result := (\<lambda>tr. \<lparr>stdout_read = Inr [104, 105, 255, 10],
                                       stderr_read = Inr [119, 97, 114, 110, 32, 10],
                                       exit_status = Inr 1\<rparr>),
              decode_replace := map (\<lambda>b. if b < 128 then b else 65533)\<rparr>"





text \<open>A world in which closing the file-transfer channel raises, as it does on a
  connection that has already dropped.\<close>

definition broken_sftp_env :: env where
  "broken_sftp_env =
    quiet_env\<lparr>raises := (\<lambda>tr. case rev tr of
                             CloseSftp h # earlier \<Rightarrow>
                               Some (PyExc (OtherExc ''OSError'') (py ''Socket is closed''))
                           | _ \<Rightarrow> None)\<rparr>"

text \<open>The server after \<open>connected_server\<close> has been disconnected.\<close>

definition disconnected_again :: server where
  "disconnected_again =
    \<lparr>ssh_client = None, sftp_client = None, config = None,
     trace = [NewClient 0,
              Connect 0 (py ''vm'') 22 (py ''ubuntu'') (ByPassword (Some (py ''pw''))),
              OpenSftp 0 2, CloseSftp 2, CloseSsh 0]\<rparr>"


lemma connected_server_eq:
  "connected_server =
     \<lparr>ssh_client = Some 0, sftp_client = Some 2,
      config = Some \<lparr>host = py ''vm'', port = 22, username = py ''ubuntu'',
                      password = Some (py ''pw''), private_key = None,
                      private_key_passphrase = None\<rparr>,
      trace = [NewClient 0, Connect 0 (py ''vm'') 22 (py ''ubuntu'') (ByPassword (Some (py ''pw''))),
               OpenSftp 0 2]\<rparr>"
  by (simp add: connected_server_def connect_ssh_def connect_body_def init_server_def
        quiet_env_def password_args_def get_env_ssh_config_def getenv_default_def
        merge_config_def validate_config_def or_str_def or_int_def or_opt_def truthy_str_def
        establish_def authenticate_def do_connect_def Let_def)

section \<open>Running a command: what is dispatched and what is returned\<close>

lemma format_result_explicit:
  "format_result command exit_code stdout_data stderr_data =
     py ''Command: '' @ command @ [10] @ py ''Exit Code: '' @ str_int exit_code @ [10, 10]
       @ py ''STDOUT:'' @ [10] @ (if strip stdout_data \<noteq> [] then rstrip stdout_data else [])
       @ [10, 10] @ py ''STDERR:'' @ [10]
       @ (if strip stderr_data \<noteq> [] then rstrip stderr_data else [])"
  by (simp add: format_result_def)


text \<open>
  C6. Invoked while both handles are absent (the state \<open>Disconnected\<close>), each of
  \<open>execute\<close>, \<open>upload\<close>, \<open>download\<close> and \<open>collect_system_info\<close> fails with the
  not-connected error of its guard and returns the server exactly as it was: no field
  changes and no call is made on any library object.
\<close>

theorem not_connected_guard:
  assumes "ssh_client s = None" and "sftp_client s = None"
  shows "execute_command E command cwd s =
           (Inl (PyExc BaseExc (py ''Not connected to SSH. Please connect first.'')), s)
       \<and> upload_file E local_path remote_path s = (Inl (PyExc BaseExc not_connected_ja), s)
       \<and> download_file E remote_path local_path s = (Inl (PyExc BaseExc not_connected_ja), s)
       \<and> get_system_info E s =
           (Inl (PyExc BaseExc (py ''Not connected to SSH. Please connect first.'')), s)"
  using assms
  by (simp add: execute_command_def upload_file_def download_file_def get_system_info_def)

theorem not_connected_guard_witness:
  "ssh_client init_server = None \<and> sftp_client init_server = None
   \<and> execute_command quiet_env (py ''ls'') None init_server =
       (Inl (PyExc BaseExc (py ''Not connected to SSH. Please connect first.'')), init_server)
   \<and> upload_file quiet_env (py ''a'') (py ''b'') init_server =
       (Inl (PyExc BaseExc not_connected_ja), init_server)
   \<and> download_file quiet_env (py ''b'') (py ''a'') init_server =
       (Inl (PyExc BaseExc not_connected_ja), init_server)
   \<and> get_system_info quiet_env init_server =
       (Inl (PyExc BaseExc (py ''Not connected to SSH. Please connect first.'')), init_server)"
proof -
  have h1: "ssh_client init_server = None" by (simp add: init_server_def)
  have h2: "sftp_client init_server = None" by (simp add: init_server_def)
  from h1 h2 not_connected_guard [OF h1 h2, where E = quiet_env and command = "py ''ls''" and cwd = None
      and local_path = "py ''a''" and remote_path = "py ''b''"]
  show ?thesis by blast
qed

text \<open>
  C9. On a connected server the one command handed to \<open>exec_command\<close> is the caller's
  command unchanged when no \<open>cwd\<close> is given, and exactly \<open>cd {cwd} && {command}\<close>, with
  nothing escaped, when a non-empty \<open>cwd\<close> is given.
\<close>

theorem dispatched_command:
  assumes "ssh_client s = Some h"
  shows "(cwd = None \<longrightarrow>
            trace (snd (execute_command E command cwd s)) = trace s @ [Exec h command])
       \<and> (\<forall>d. cwd = Some d \<and> d \<noteq> [] \<longrightarrow>
            trace (snd (execute_command E command cwd s))
              = trace s @ [Exec h (py ''cd '' @ d @ py '' && '' @ command)])"
  using assms
  by (auto simp: execute_command_def execute_body_def actual_command_def Let_def
           split: option.splits sum.splits)

theorem dispatched_command_witness:
  "ssh_client connected_server = Some 0
   \<and> trace (snd (execute_command quiet_env (py ''ls'') (Some (py ''/tmp'')) connected_server))
       = trace connected_server @ [Exec 0 (py ''cd /tmp && ls'')]
   \<and> trace (snd (execute_command quiet_env (py ''ls'') None connected_server))
       = trace connected_server @ [Exec 0 (py ''ls'')]"
proof -
  have h: "ssh_client connected_server = Some 0" by (simp add: connected_server_eq)
  have a: "trace (snd (execute_command quiet_env (py ''ls'') (Some (py ''/tmp'')) connected_server))
       = trace connected_server @ [Exec 0 (py ''cd /tmp && ls'')]"
    using dispatched_command [OF h, where cwd = "Some (py ''/tmp'')" and E = quiet_env
        and command = "py ''ls''"] by simp
  have b: "trace (snd (execute_command quiet_env (py ''ls'') None connected_server))
       = trace connected_server @ [Exec 0 (py ''ls'')]"
    using dispatched_command [OF h, where cwd = None and E = quiet_env and command = "py ''ls''"] by simp
  from h a b show ?thesis by blast
qed

section \<open>What the returned text carries\<close>

lemma rstrip_decomp: "d = rstrip d @ rev (takeWhile is_space (rev d))"
proof -
  have "takeWhile is_space (rev d) @ dropWhile is_space (rev d) = rev d" by simp
  then have "rev (takeWhile is_space (rev d) @ dropWhile is_space (rev d)) = rev (rev d)"
    by (rule arg_cong)
  then have "rev (dropWhile is_space (rev d)) @ rev (takeWhile is_space (rev d)) = d"
    by (simp only: rev_append rev_rev_ident)
  then show ?thesis by (simp only: rstrip_def)
qed

lemma strip_Nil_rstrip_Nil:
  assumes "strip d = []"
  shows "rstrip d = []"
proof (rule ccontr)
  assume ne: "rstrip d \<noteq> []"
  then have dw: "dropWhile is_space (rev d) \<noteq> []" by (simp add: rstrip_def)
  then have "\<not> is_space (hd (dropWhile is_space (rev d)))" by (rule hd_dropWhile)
  moreover have "hd (dropWhile is_space (rev d)) = last (rstrip d)"
    using dw by (simp add: rstrip_def last_rev)
  ultimately have "\<not> is_space (last (rstrip d))" by simp
  moreover from assms have "\<forall>c\<in>set (rstrip d). is_space c"
    by (simp add: strip_def dropWhile_eq_Nil_conv)
  ultimately show False using ne last_in_set by blast
qed

lemma shown_keeps_text:
  "\<exists>ws. d = (if strip d \<noteq> [] then rstrip d else []) @ ws \<and> (\<forall>c\<in>set ws. is_space c)"
proof -
  have sp: "\<forall>c\<in>set (rev (takeWhile is_space (rev d))). is_space c"
    by (auto dest: set_takeWhileD)
  show ?thesis
  proof (cases "strip d = []")
    case True
    then have "rstrip d = []" by (rule strip_Nil_rstrip_Nil)
    with rstrip_decomp [of d] have "d = rev (takeWhile is_space (rev d))" by simp
    with sp True show ?thesis by auto
  next
    case False
    with rstrip_decomp [of d] sp show ?thesis by auto
  qed
qed

lemma digits_nonempty: "digits n \<noteq> []"
  by (subst digits.simps) simp

lemma digits_range: "c \<in> set (digits n) \<Longrightarrow> 48 \<le> c \<and> c \<le> 57"
proof (induction n rule: digits.induct)
  case (1 n)
  show ?case
  proof (cases "n < 10")
    case True
    with "1.prems" show ?thesis by (subst (asm) digits.simps) simp
  next
    case False
    from "1.prems" False have "c \<in> set (digits (n div 10)) \<or> c = 48 + n mod 10"
      by (subst (asm) digits.simps) auto
    then show ?thesis
    proof
      assume "c \<in> set (digits (n div 10))"
      with "1.IH" False show ?thesis by simp
    next
      assume "c = 48 + n mod 10"
      then show ?thesis by simp
    qed
  qed
qed

lemma digits_value_snoc: "digits_value (ds @ [d]) = 10 * digits_value ds + (d - 48)"
  by (simp add: digits_value_def)

lemma digits_value_digits: "digits_value (digits n) = n"
proof (induction n rule: digits.induct)
  case (1 n)
  show ?case
  proof (cases "n < 10")
    case True
    then show ?thesis by (subst digits.simps) (simp add: digits_value_def)
  next
    case False
    with "1.IH" have "digits_value (digits (n div 10)) = n div 10" by simp
    with False show ?thesis by (subst digits.simps) (simp add: digits_value_snoc)
  qed
qed

lemma digits_inj: "digits m = digits n \<Longrightarrow> m = n"
  by (metis digits_value_digits)

lemma digits_no_minus: "digits n \<noteq> 45 # ds"
proof
  assume "digits n = 45 # ds"
  then have "45 \<in> set (digits n)" by simp
  then show False by (auto dest: digits_range)
qed

lemma str_int_inj: "str_int i = str_int j \<Longrightarrow> i = j"
  using digits_no_minus [of "nat i"] digits_no_minus [of "nat j"]
  by (auto simp: str_int_def split: if_splits dest!: digits_inj dest: sym)


lemma execute_command_delivers:
  assumes "ssh_client s = Some h"
      and "raises E (trace s @ [Exec h (actual_command command cwd)]) = None"
      and "stdout_read (exec_result E (trace s @ [Exec h (actual_command command cwd)])) = Inr out"
      and "stderr_read (exec_result E (trace s @ [Exec h (actual_command command cwd)])) = Inr err"
      and "exit_status (exec_result E (trace s @ [Exec h (actual_command command cwd)]))
             = Inr exit_code"
  shows "fst (execute_command E command cwd s)
           = Inr (format_result command exit_code (decode_replace E out) (decode_replace E err))"
  using assms by (simp add: execute_command_def execute_body_def Let_def)

lemma execute_command_fails_iff:
  assumes "ssh_client s = Some h"
  shows "(\<exists>e. fst (execute_command E command cwd s) = Inl e) \<longleftrightarrow>
            (raises E (trace s @ [Exec h (actual_command command cwd)]) \<noteq> None
             \<or> isl (stdout_read (exec_result E (trace s @ [Exec h (actual_command command cwd)])))
             \<or> isl (stderr_read (exec_result E (trace s @ [Exec h (actual_command command cwd)])))
             \<or> isl (exit_status (exec_result E (trace s @ [Exec h (actual_command command cwd)]))))"
  using assms
  by (auto simp: execute_command_def execute_body_def Let_def
           split: option.splits sum.splits)





text \<open>
  C7. On a connected server, whenever the transport delivers the two streams and an exit
  status, \<open>execute\<close> returns normally, whatever the status is (zero or not), and the text
  it returns is the \<open>Command:\<close> line, the line \<open>Exit Code: \<close> with the status in decimal,
  and the \<open>STDOUT:\<close> and \<open>STDERR:\<close> blocks holding the decoded streams without their
  trailing white space. The status can be read back from its decimal form, and each block
  differs from the decoded stream by trailing white space only. \<open>execute\<close> fails exactly
  when \<open>exec_command\<close>, one of the two reads or the reading of the status raises.
\<close>

theorem exit_status_never_raises:
  assumes "ssh_client s = Some h"
  shows "(raises E (trace s @ [Exec h (actual_command command cwd)]) = None
          \<and> stdout_read (exec_result E (trace s @ [Exec h (actual_command command cwd)])) = Inr out
          \<and> stderr_read (exec_result E (trace s @ [Exec h (actual_command command cwd)])) = Inr err
          \<and> exit_status (exec_result E (trace s @ [Exec h (actual_command command cwd)])) = Inr exit_code
          \<longrightarrow> fst (execute_command E command cwd s)
                = Inr (py ''Command: '' @ command @ [10]
                       @ py ''Exit Code: '' @ str_int exit_code @ [10, 10]
                       @ py ''STDOUT:'' @ [10]
                       @ (if strip (decode_replace E out) \<noteq> []
                          then rstrip (decode_replace E out) else [])
                       @ [10, 10] @ py ''STDERR:'' @ [10]
                       @ (if strip (decode_replace E err) \<noteq> []
                          then rstrip (decode_replace E err) else [])))
       \<and> (\<forall>i j. str_int i = str_int j \<longrightarrow> i = j)
       \<and> (\<forall>d. \<exists>ws. d = (if strip d \<noteq> [] then rstrip d else []) @ ws
                    \<and> (\<forall>c\<in>set ws. is_space c))
       \<and> ((\<exists>e. fst (execute_command E command cwd s) = Inl e) \<longleftrightarrow>
            (raises E (trace s @ [Exec h (actual_command command cwd)]) \<noteq> None
             \<or> isl (stdout_read (exec_result E (trace s @ [Exec h (actual_command command cwd)])))
             \<or> isl (stderr_read (exec_result E (trace s @ [Exec h (actual_command command cwd)])))
             \<or> isl (exit_status (exec_result E (trace s @ [Exec h (actual_command command cwd)])))))"
proof (intro conjI impI allI)
  assume "raises E (trace s @ [Exec h (actual_command command cwd)]) = None
          \<and> stdout_read (exec_result E (trace s @ [Exec h (actual_command command cwd)])) = Inr out
          \<and> stderr_read (exec_result E (trace s @ [Exec h (actual_command command cwd)])) = Inr err
          \<and> exit_status (exec_result E (trace s @ [Exec h (actual_command command cwd)])) = Inr exit_code"
  then show "fst (execute_command E command cwd s)
                = Inr (py ''Command: '' @ command @ [10]
                       @ py ''Exit Code: '' @ str_int exit_code @ [10, 10]
                       @ py ''STDOUT:'' @ [10]
                       @ (if strip (decode_replace E out) \<noteq> []
                          then rstrip (decode_replace E out) else [])
                       @ [10, 10] @ py ''STDERR:'' @ [10]
                       @ (if strip (decode_replace E err) \<noteq> []
                          then rstrip (decode_replace E err) else []))"
    using execute_command_delivers [OF assms, of E command cwd out err exit_code]
    unfolding format_result_explicit by blast
next
  fix i j assume "str_int i = str_int j" then show "i = j" by (rule str_int_inj)
next
  fix d show "\<exists>ws. d = (if strip d \<noteq> [] then rstrip d else []) @ ws \<and> (\<forall>c\<in>set ws. is_space c)"
    by (rule shown_keeps_text)
next
  show "(\<exists>e. fst (execute_command E command cwd s) = Inl e) \<longleftrightarrow>
            (raises E (trace s @ [Exec h (actual_command command cwd)]) \<noteq> None
             \<or> isl (stdout_read (exec_result E (trace s @ [Exec h (actual_command command cwd)])))
             \<or> isl (stderr_read (exec_result E (trace s @ [Exec h (actual_command command cwd)])))
             \<or> isl (exit_status (exec_result E (trace s @ [Exec h (actual_command command cwd)]))))"
    by (rule execute_command_fails_iff [OF assms])
qed

theorem exit_status_never_raises_witness:
  "ssh_client connected_server = Some 0
   \<and> exit_status (exec_result noisy_env (trace connected_server @ [Exec 0 (py ''false'')]))
       = Inr 1
   \<and> fst (execute_command noisy_env (py ''false'') None connected_server)
       = Inr (py ''Command: false'' @ [10] @ py ''Exit Code: 1'' @ [10, 10] @ py ''STDOUT:''
              @ [10] @ [104, 105, 65533] @ [10, 10] @ py ''STDERR:'' @ [10] @ py ''warn'')"
proof -
  have h: "ssh_client connected_server = Some 0" by (simp add: connected_server_eq)
  have a: "actual_command (py ''false'') None = py ''false''" by (simp add: actual_command_def)
  have r: "raises noisy_env (trace connected_server @ [Exec 0 (py ''false'')]) = None"
    by (simp add: noisy_env_def quiet_env_def)
  have o: "stdout_read (exec_result noisy_env (trace connected_server @ [Exec 0 (py ''false'')]))
             = Inr [104, 105, 255, 10]"
    by (simp add: noisy_env_def quiet_env_def)
  have e: "stderr_read (exec_result noisy_env (trace connected_server @ [Exec 0 (py ''false'')]))
             = Inr [119, 97, 114, 110, 32, 10]"
    by (simp add: noisy_env_def quiet_env_def)
  have x: "exit_status (exec_result noisy_env (trace connected_server @ [Exec 0 (py ''false'')]))
             = Inr 1"
    by (simp add: noisy_env_def quiet_env_def)
  have d1: "decode_replace noisy_env [104, 105, 255, 10] = [104, 105, 65533, 10]"
    by (simp add: noisy_env_def quiet_env_def)
  have d2: "decode_replace noisy_env [119, 97, 114, 110, 32, 10] = [119, 97, 114, 110, 32, 10]"
    by (simp add: noisy_env_def quiet_env_def)
  have s1: "strip [104, 105, 65533, 10] \<noteq> [] \<and> rstrip [104, 105, 65533, 10] = [104, 105, 65533]"
    by (simp add: strip_def rstrip_def is_space_def)
  have s2: "strip [119, 97, 114, 110, 32, 10] \<noteq> []
            \<and> rstrip [119, 97, 114, 110, 32, 10] = [119, 97, 114, 110]"
    by (simp add: strip_def rstrip_def is_space_def)
  have n: "str_int 1 = [49]" by (simp add: str_int_def digits.simps)
  from exit_status_never_raises [OF h, where E = noisy_env and command = "py ''false''"
      and cwd = None and out = "[104, 105, 255, 10]" and err = "[119, 97, 114, 110, 32, 10]"
      and exit_code = 1]
  have "fst (execute_command noisy_env (py ''false'') None connected_server)
       = Inr (py ''Command: false'' @ [10] @ py ''Exit Code: 1'' @ [10, 10] @ py ''STDOUT:''
              @ [10] @ [104, 105, 65533] @ [10, 10] @ py ''STDERR:'' @ [10] @ py ''warn'')"
    unfolding a using r o e x by (simp add: d1 d2 s1 s2 n)
  with h x show ?thesis by blast
qed

section \<open>Resolving the credentials\<close>





lemma validate_config_None_iff:
  "validate_config c = None \<longleftrightarrow>
     host c \<noteq> [] \<and> username c \<noteq> []
     \<and> (truthy_str (password c) \<or> truthy_str (private_key c))"
  by (auto simp: validate_config_def)






section \<open>Disconnecting\<close>

lemma disconnect_ssh_idle:
  assumes "ssh_client s = None" and "sftp_client s = None"
  shows "disconnect_ssh E s
           = (Inr (py ''Successfully disconnected from SSH''), s\<lparr>config := None\<rparr>)"
  using assms
  by (simp add: disconnect_ssh_def disconnect_body_def close_sftp_step_def close_ssh_step_def)

lemma disconnect_ssh_returns:
  assumes "disconnect_ssh E s = (Inr msg, s')"
  shows "msg = py ''Successfully disconnected from SSH''
       \<and> ssh_client s' = None \<and> sftp_client s' = None \<and> config s' = None
       \<and> trace s' = trace s
            @ (case sftp_client s of None \<Rightarrow> [] | Some h \<Rightarrow> [CloseSftp h])
            @ (case ssh_client s of None \<Rightarrow> [] | Some h \<Rightarrow> [CloseSsh h])"
  using assms
  by (auto simp: disconnect_ssh_def disconnect_body_def close_sftp_step_def close_ssh_step_def
        Let_def split: option.splits prod.splits sum.splits)

lemma disconnect_ssh_raises:
  assumes "disconnect_ssh E s = (Inl e, s')"
  shows "\<exists>cause. e = PyExc BaseExc (py ''Disconnect failed: '' @ exc_str cause)
       \<and> ((\<exists>h. sftp_client s = Some h \<and> raises E (trace s @ [CloseSftp h]) = Some cause
              \<and> s' = s\<lparr>trace := trace s @ [CloseSftp h]\<rparr>)
          \<or> (\<exists>h. ssh_client s = Some h \<and> raises E (trace s' ) = Some cause
              \<and> ssh_client s' = Some h \<and> sftp_client s' = None \<and> config s' = config s
              \<and> trace s' = trace s
                   @ (case sftp_client s of None \<Rightarrow> [] | Some g \<Rightarrow> [CloseSftp g])
                   @ [CloseSsh h]))"
  using assms
  by (auto simp: disconnect_ssh_def disconnect_body_def close_sftp_step_def close_ssh_step_def
        Let_def split: option.splits prod.splits sum.splits)

text \<open>
  C3 (as amended). \<open>disconnect\<close> invoked with no handle held succeeds at once, making no
  call. In every state, when it returns it has closed the file-transfer sub-channel (if
  one was held) and then the transport (if one was held), both handles and the recorded
  configuration are cleared, and a further \<open>disconnect\<close> succeeds again without any call.
  It returns exactly when no close raises. An error raised by a close is not suppressed:
  \<open>disconnect\<close> then fails with \<open>Disconnect failed: \<close> followed by the error's text, and
  the handle whose close raised and the recorded configuration are still held.
\<close>

theorem disconnect_clears_or_reports:
  "(ssh_client s = None \<and> sftp_client s = None \<longrightarrow>
      disconnect_ssh E s
        = (Inr (py ''Successfully disconnected from SSH''), s\<lparr>config := None\<rparr>))
   \<and> (\<forall>msg s'. disconnect_ssh E s = (Inr msg, s') \<longrightarrow>
         msg = py ''Successfully disconnected from SSH''
       \<and> ssh_client s' = None \<and> sftp_client s' = None \<and> config s' = None
       \<and> trace s' = trace s
            @ (case sftp_client s of None \<Rightarrow> [] | Some h \<Rightarrow> [CloseSftp h])
            @ (case ssh_client s of None \<Rightarrow> [] | Some h \<Rightarrow> [CloseSsh h])
       \<and> disconnect_ssh E2 s' = (Inr msg, s'))
   \<and> (\<forall>e s'. disconnect_ssh E s = (Inl e, s') \<longrightarrow>
         (\<exists>cause. e = PyExc BaseExc (py ''Disconnect failed: '' @ exc_str cause)
       \<and> ((\<exists>h. sftp_client s = Some h \<and> raises E (trace s @ [CloseSftp h]) = Some cause
              \<and> s' = s\<lparr>trace := trace s @ [CloseSftp h]\<rparr>)
          \<or> (\<exists>h. ssh_client s = Some h \<and> raises E (trace s') = Some cause
              \<and> ssh_client s' = Some h \<and> sftp_client s' = None \<and> config s' = config s
              \<and> trace s' = trace s
                   @ (case sftp_client s of None \<Rightarrow> [] | Some g \<Rightarrow> [CloseSftp g])
                   @ [CloseSsh h]))))
   \<and> ((\<exists>msg s'. disconnect_ssh E s = (Inr msg, s')) \<longleftrightarrow>
        (\<forall>h. sftp_client s = Some h \<longrightarrow> raises E (trace s @ [CloseSftp h]) = None)
        \<and> (\<forall>h. ssh_client s = Some h \<longrightarrow>
              raises E (trace s
                   @ (case sftp_client s of None \<Rightarrow> [] | Some g \<Rightarrow> [CloseSftp g])
                   @ [CloseSsh h]) = None))"
proof (intro conjI allI impI)
  assume "ssh_client s = None \<and> sftp_client s = None"
  then show "disconnect_ssh E s
        = (Inr (py ''Successfully disconnected from SSH''), s\<lparr>config := None\<rparr>)"
    by (simp add: disconnect_ssh_idle)
next
  fix msg s' assume r: "disconnect_ssh E s = (Inr msg, s')"
  from disconnect_ssh_returns [OF r]
  show "msg = py ''Successfully disconnected from SSH''" and "ssh_client s' = None"
    and "sftp_client s' = None" and "config s' = None"
    and "trace s' = trace s
            @ (case sftp_client s of None \<Rightarrow> [] | Some h \<Rightarrow> [CloseSftp h])
            @ (case ssh_client s of None \<Rightarrow> [] | Some h \<Rightarrow> [CloseSsh h])"
    by simp_all
  from disconnect_ssh_returns [OF r]
  have "ssh_client s' = None" "sftp_client s' = None" "config s' = None"
    "msg = py ''Successfully disconnected from SSH''" by simp_all
  then show "disconnect_ssh E2 s' = (Inr msg, s')"
    by (simp add: disconnect_ssh_idle)
next
  fix e s' assume "disconnect_ssh E s = (Inl e, s')"
  then show "\<exists>cause. e = PyExc BaseExc (py ''Disconnect failed: '' @ exc_str cause)
       \<and> ((\<exists>h. sftp_client s = Some h \<and> raises E (trace s @ [CloseSftp h]) = Some cause
              \<and> s' = s\<lparr>trace := trace s @ [CloseSftp h]\<rparr>)
          \<or> (\<exists>h. ssh_client s = Some h \<and> raises E (trace s') = Some cause
              \<and> ssh_client s' = Some h \<and> sftp_client s' = None \<and> config s' = config s
              \<and> trace s' = trace s
                   @ (case sftp_client s of None \<Rightarrow> [] | Some g \<Rightarrow> [CloseSftp g])
                   @ [CloseSsh h]))"
    by (rule disconnect_ssh_raises)
next
  show "(\<exists>msg s'. disconnect_ssh E s = (Inr msg, s')) \<longleftrightarrow>
        (\<forall>h. sftp_client s = Some h \<longrightarrow> raises E (trace s @ [CloseSftp h]) = None)
        \<and> (\<forall>h. ssh_client s = Some h \<longrightarrow>
              raises E (trace s
                   @ (case sftp_client s of None \<Rightarrow> [] | Some g \<Rightarrow> [CloseSftp g])
                   @ [CloseSsh h]) = None)"
    by (auto simp: disconnect_ssh_def disconnect_body_def close_sftp_step_def
          close_ssh_step_def Let_def split: option.splits prod.splits sum.splits)
qed

lemma disconnect_connected:
  "disconnect_ssh quiet_env connected_server
     = (Inr (py ''Successfully disconnected from SSH''), disconnected_again)"
  by (simp add: connected_server_eq disconnected_again_def disconnect_ssh_def
        disconnect_body_def close_sftp_step_def close_ssh_step_def quiet_env_def Let_def)

theorem disconnect_clears_or_reports_witness:
  "ssh_client init_server = None \<and> sftp_client init_server = None
   \<and> disconnect_ssh quiet_env init_server
       = (Inr (py ''Successfully disconnected from SSH''), init_server)
   \<and> disconnect_ssh quiet_env connected_server
       = (Inr (py ''Successfully disconnected from SSH''), disconnected_again)
   \<and> ssh_client disconnected_again = None \<and> sftp_client disconnected_again = None
   \<and> config disconnected_again = None
   \<and> trace disconnected_again = trace connected_server @ [CloseSftp 2, CloseSsh 0]
   \<and> disconnect_ssh quiet_env disconnected_again
       = (Inr (py ''Successfully disconnected from SSH''), disconnected_again)"
proof -
  have i: "ssh_client init_server = None \<and> sftp_client init_server = None"
    by (simp add: init_server_def)
  have i2: "init_server\<lparr>config := None\<rparr> = init_server" by (simp add: init_server_def)
  have c: "sftp_client connected_server = Some 2" "ssh_client connected_server = Some 0"
    by (simp_all add: connected_server_eq)
  note idle = disconnect_clears_or_reports [of init_server quiet_env quiet_env,
      THEN conjunct1, THEN mp, OF i]
  have a: "disconnect_ssh quiet_env init_server
       = (Inr (py ''Successfully disconnected from SSH''), init_server)"
    using idle by (simp only: i2)
  note live = disconnect_clears_or_reports [of connected_server quiet_env quiet_env,
      THEN conjunct2, THEN conjunct1, THEN spec, THEN spec, THEN mp, OF disconnect_connected]
  have t: "trace disconnected_again = trace connected_server @ [CloseSftp 2, CloseSsh 0]"
    using live by (simp add: c)
  from i a disconnect_connected live t show ?thesis by blast
qed

text \<open>
  C3 as stated suppresses the errors of closing a broken handle and always ends
  disconnected. When closing the sub-channel raises, \<open>disconnect\<close> raises, the transport is
  never closed, and both handles and the configuration stay in place.
\<close>

theorem disconnect_suppresses_counterexample:
  "disconnect_ssh broken_sftp_env connected_server
     = (Inl (PyExc BaseExc (py ''Disconnect failed: Socket is closed'')),
        \<lparr>ssh_client = Some 0, sftp_client = Some 2,
         config = Some \<lparr>host = py ''vm'', port = 22, username = py ''ubuntu'',
                         password = Some (py ''pw''), private_key = None,
                         private_key_passphrase = None\<rparr>,
         trace = [NewClient 0,
                  Connect 0 (py ''vm'') 22 (py ''ubuntu'') (ByPassword (Some (py ''pw''))),
                  OpenSftp 0 2, CloseSftp 2]\<rparr>)"
  by (simp add: connected_server_eq disconnect_ssh_def disconnect_body_def
        close_sftp_step_def close_ssh_step_def broken_sftp_env_def quiet_env_def Let_def)


section \<open>A connect attempt that fails\<close>



lemma server_trace_only:
  "ssh_client s = None \<Longrightarrow>
   s\<lparr>ssh_client := None, trace := tr\<rparr> = s\<lparr>trace := tr\<rparr>"
  by (cases s) simp








end
